theory Spec2Isabelle
  imports Main "HOL-Library.Word"
begin

section \<open>Native values and host values\<close>

text \<open>
  The binding (\<^verbatim>\<open>src/Transaction.cpp\<close>) sits between the native client library, which
  hands out raw memory regions, C integers and error codes, and the host runtime, which
  wants host values. Native memory is a map from addresses to bytes; a C \<^verbatim>\<open>int\<close>
  is a 32-bit word and an \<^verbatim>\<open>int64_t\<close> a 64-bit word, both read as two's complement.
\<close>

type_synonym byte = "8 word"
type_synonym addr = nat
type_synonym memory = "addr \<Rightarrow> byte"
type_synonym c_int = "32 word"
type_synonym fdb_error_t = "32 word"
type_synonym fdb_bool_t = "32 word"

text \<open>
  The host values the decode functions build. A number carries the exact numeric value
  of its IEEE double (every number built here is integral); a string carries the UTF-8
  bytes it was created from; an object is its property list in insertion order.
\<close>

datatype js_value =
    JSUndefined
  | JSNull
  | JSBoolean bool
  | JSNumber int
  | JSString "byte list"
  | JSBuffer "byte list"
  | JSArray "js_value list"
  | JSObject "(string \<times> js_value) list"

text \<open>
  \<^verbatim>\<open>Nan::CopyBuffer(const char *data, uint32_t size)\<close>: a fresh host buffer holding
  the \<^verbatim>\<open>size\<close> bytes that start at \<^verbatim>\<open>data\<close>. The callers pass a C
  \<^verbatim>\<open>int\<close>, whose bits are reinterpreted as the unsigned size.
\<close>

definition CopyBuffer :: "memory \<Rightarrow> addr \<Rightarrow> c_int \<Rightarrow> js_value" where
  "CopyBuffer mem data sz = JSBuffer (map (\<lambda>i. mem (data + i)) [0 ..< unat sz])"

text \<open>\<^verbatim>\<open>v8::Array::New(isolate, int length)\<close>: a negative length gives the empty array.\<close>

definition Array_New :: "c_int \<Rightarrow> js_value list" where
  "Array_New len = replicate (nat (sint len)) JSUndefined"

text \<open>
  \<^verbatim>\<open>array->Set(Number::New(isolate, i), v)\<close>: an index beyond the end extends the array,
  the gap being holes that read as undefined.
\<close>

definition Array_Set :: "js_value list \<Rightarrow> nat \<Rightarrow> js_value \<Rightarrow> js_value list" where
  "Array_Set arr i v =
     (if i < length arr then arr[i := v]
      else arr @ replicate (i - length arr) JSUndefined @ [v])"

text \<open>\<^verbatim>\<open>object->Set(name, v)\<close>: overwrite the property in place, or append it.\<close>

fun Object_Set :: "(string \<times> js_value) list \<Rightarrow> string \<Rightarrow> js_value \<Rightarrow> (string \<times> js_value) list" where
  "Object_Set [] k v = [(k, v)]"
| "Object_Set ((k', v') # ps) k v =
     (if k' = k then (k, v) # ps else (k', v') # Object_Set ps k v)"

section \<open>Completed native futures\<close>

text \<open>
  \<^verbatim>\<open>FDBKeyValue\<close>: one element of the array a range read returns, with its fields
  \<^verbatim>\<open>key\<close>, \<^verbatim>\<open>key_length\<close>, \<^verbatim>\<open>value\<close> and \<^verbatim>\<open>value_length\<close>.
\<close>

record FDBKeyValue =
  kv_key :: addr
  kv_key_length :: c_int
  kv_value :: addr
  kv_value_length :: c_int

text \<open>
  The native accessors belong to the client library, so a completed future is given by
  what each accessor returns on it: the error code first, then the out-parameters. The
  key-value array and the string array are given by their element at each index; a C
  string is given by the bytes before its terminating zero.
\<close>

record FDBFuture =
  fdb_future_get_error :: fdb_error_t
  fdb_future_get_value :: "fdb_error_t \<times> c_int \<times> addr \<times> c_int"
  fdb_future_get_key :: "fdb_error_t \<times> addr \<times> c_int"
  fdb_future_get_keyvalue_array :: "fdb_error_t \<times> (nat \<Rightarrow> FDBKeyValue) \<times> c_int \<times> fdb_bool_t"
  fdb_future_get_string_array :: "fdb_error_t \<times> (nat \<Rightarrow> byte list) \<times> c_int"
  fdb_future_get_version :: "fdb_error_t \<times> 64 word"

section \<open>The decode functions\<close>

text \<open>
  Each decode function returns the error code it stores through \<^verbatim>\<open>errOut\<close> together
  with the host value it returns.
\<close>

definition ignoreResult :: "FDBFuture \<Rightarrow> fdb_error_t \<times> js_value" where
  "ignoreResult future = (fdb_future_get_error future, JSUndefined)"

definition getValue :: "memory \<Rightarrow> FDBFuture \<Rightarrow> fdb_error_t \<times> js_value" where
  "getValue mem future =
     (case fdb_future_get_value future of (errOut, valuePresent, value, valueLength) \<Rightarrow>
        if errOut \<noteq> 0 then (errOut, JSUndefined)
        else (errOut, if valuePresent \<noteq> 0 then CopyBuffer mem value valueLength else JSNull))"

definition getKey :: "memory \<Rightarrow> FDBFuture \<Rightarrow> fdb_error_t \<times> js_value" where
  "getKey mem future =
     (case fdb_future_get_key future of (errOut, key, keyLength) \<Rightarrow>
        if errOut \<noteq> 0 then (errOut, JSUndefined)
        else (errOut, CopyBuffer mem key keyLength))"

text \<open>
  The loop of \<^verbatim>\<open>getKeyValueList\<close>, \<^verbatim>\<open>for (int i = 0; i < len; i++)\<close>, with the
  array built so far as its state. The counter is a C \<^verbatim>\<open>int\<close> that stays below
  \<^verbatim>\<open>len\<close>, so it is a natural number compared with the signed value of \<^verbatim>\<open>len\<close>.
\<close>

function getKeyValueList_loop ::
  "memory \<Rightarrow> (nat \<Rightarrow> FDBKeyValue) \<Rightarrow> c_int \<Rightarrow> nat \<Rightarrow> js_value list \<Rightarrow> js_value list" where
  "getKeyValueList_loop mem kv len i jsValueArray =
     (if int i < sint len then
        let jsKeyBuffer = CopyBuffer mem (kv_key (kv i)) (kv_key_length (kv i));
            jsValueBuffer = CopyBuffer mem (kv_value (kv i)) (kv_value_length (kv i));
            jsKeyValue = Object_Set (Object_Set [] ''key'' jsKeyBuffer) ''value'' jsValueBuffer
        in getKeyValueList_loop mem kv len (Suc i) (Array_Set jsValueArray i (JSObject jsKeyValue))
      else jsValueArray)"
  by pat_completeness auto
termination
  by (relation "measure (\<lambda>(mem, kv, len, i, arr). nat (sint len) - i)") auto

definition getKeyValueList :: "memory \<Rightarrow> FDBFuture \<Rightarrow> fdb_error_t \<times> js_value" where
  "getKeyValueList mem future =
     (case fdb_future_get_keyvalue_array future of (errOut, kv, len, more') \<Rightarrow>
        if errOut \<noteq> 0 then (errOut, JSUndefined)
        else
          let jsValueArray = getKeyValueList_loop mem kv len 0 (Array_New len);
              returnObj = Object_Set [] ''values'' (JSArray jsValueArray);
              returnObj = Object_Set returnObj ''more'' (JSBoolean (more' \<noteq> 0))
          in (errOut, JSObject returnObj))"

function getStringArray_loop ::
  "(nat \<Rightarrow> byte list) \<Rightarrow> c_int \<Rightarrow> nat \<Rightarrow> js_value list \<Rightarrow> js_value list" where
  "getStringArray_loop strings stringCount i jsArray =
     (if int i < sint stringCount then
        getStringArray_loop strings stringCount (Suc i) (Array_Set jsArray i (JSString (strings i)))
      else jsArray)"
  by pat_completeness auto
termination
  by (relation "measure (\<lambda>(strings, stringCount, i, arr). nat (sint stringCount) - i)") auto

definition getStringArray :: "FDBFuture \<Rightarrow> fdb_error_t \<times> js_value" where
  "getStringArray future =
     (case fdb_future_get_string_array future of (errOut, strings, stringCount) \<Rightarrow>
        if errOut \<noteq> 0 then (errOut, JSUndefined)
        else (errOut, JSArray (getStringArray_loop strings stringCount 0 (Array_New stringCount))))"

text \<open>
  The conversion \<^verbatim>\<open>(double)version\<close> of an \<^verbatim>\<open>int64_t\<close>: the nearest value with a
  53-bit significand, a tie going to the even significand. The magnitude of an
  \<^verbatim>\<open>int64_t\<close> is at most \<open>2 ^ 63\<close>, so the result is always finite and integral.
\<close>

fun bit_length :: "nat \<Rightarrow> nat" where
  "bit_length n = (if n = 0 then 0 else Suc (bit_length (n div 2)))"

definition round_to_double :: "nat \<Rightarrow> nat" where
  "round_to_double n =
     (let e = bit_length n - 53;
          q = n div 2 ^ e;
          r = n mod 2 ^ e
      in if 2 * r > 2 ^ e \<or> (2 * r = 2 ^ e \<and> odd q) then (q + 1) * 2 ^ e else q * 2 ^ e)"

definition int64_to_double :: "64 word \<Rightarrow> int" where
  "int64_to_double v =
     (if sint v < 0 then - int (round_to_double (nat (- sint v)))
      else int (round_to_double (nat (sint v))))"

definition getVersion :: "FDBFuture \<Rightarrow> fdb_error_t \<times> js_value" where
  "getVersion future =
     (case fdb_future_get_version future of (errOut, version) \<Rightarrow>
        if errOut \<noteq> 0 then (errOut, JSUndefined)
        else (errOut, JSNumber (int64_to_double version)))"

section \<open>The value marshaler\<close>

text \<open>
  \<^verbatim>\<open>StringParams\<close> distinguishes two shapes of host argument: a string
  (\<^verbatim>\<open>keyVal->IsString()\<close>), which is a sequence of UTF-16 code units, and anything
  else, which it treats as a \<^verbatim>\<open>Buffer\<close> object, given by \<^verbatim>\<open>Buffer::Data\<close> and
  \<^verbatim>\<open>Buffer::Length\<close> (a \<^verbatim>\<open>size_t\<close>).
\<close>

datatype host_arg =
    ArgString "16 word list"
  | ArgBuffer addr nat

text \<open>
  The process heap: its cells, and the address from which \<^verbatim>\<open>new\<close> hands out fresh
  blocks. A fresh block holds whatever its cells held before.
\<close>

record heap =
  cells :: memory
  brk :: addr

definition new_array :: "heap \<Rightarrow> nat \<Rightarrow> addr \<times> heap" where
  "new_array h n = (brk h, h\<lparr>brk := brk h + n\<rparr>)"

fun store_bytes :: "memory \<Rightarrow> addr \<Rightarrow> byte list \<Rightarrow> memory" where
  "store_bytes mem a [] = mem"
| "store_bytes mem a (b # bs) = store_bytes (mem(a := b)) (Suc a) bs"

definition read_bytes :: "memory \<Rightarrow> addr \<Rightarrow> nat \<Rightarrow> byte list" where
  "read_bytes mem a n = map (\<lambda>i. mem (a + i)) [0 ..< n]"

text \<open>
  The host runtime's string API. A lead surrogate followed by a trail surrogate is one
  character beyond the basic plane; every other code unit, an unpaired surrogate
  included, is a character by itself.
\<close>

definition is_lead :: "16 word \<Rightarrow> bool" where
  "is_lead u = (0xD800 \<le> unat u \<and> unat u < 0xDC00)"

definition is_trail :: "16 word \<Rightarrow> bool" where
  "is_trail u = (0xDC00 \<le> unat u \<and> unat u < 0xE000)"

fun utf16_decode :: "16 word list \<Rightarrow> nat list" where
  "utf16_decode [] = []"
| "utf16_decode [u] = [unat u]"
| "utf16_decode (u # v # rest) =
     (if is_lead u \<and> is_trail v
      then (0x10000 + (unat u - 0xD800) * 0x400 + (unat v - 0xDC00)) # utf16_decode rest
      else unat u # utf16_decode (v # rest))"

definition utf8_encode_char :: "nat \<Rightarrow> byte list" where
  "utf8_encode_char c =
     (if c < 0x80 then [of_nat c]
      else if c < 0x800 then [of_nat (0xC0 + c div 0x40), of_nat (0x80 + c mod 0x40)]
      else if c < 0x10000 then
        [of_nat (0xE0 + c div 0x1000), of_nat (0x80 + c div 0x40 mod 0x40), of_nat (0x80 + c mod 0x40)]
      else
        [of_nat (0xF0 + c div 0x40000), of_nat (0x80 + c div 0x1000 mod 0x40),
         of_nat (0x80 + c div 0x40 mod 0x40), of_nat (0x80 + c mod 0x40)])"

text \<open>The UTF-8 encoding of a host string: its characters' encodings, one after the other.\<close>

definition utf8_encoding :: "16 word list \<Rightarrow> byte list" where
  "utf8_encoding s = concat (map utf8_encode_char (utf16_decode s))"

text \<open>
  A size as a C \<^verbatim>\<open>int\<close> holds it: the low 32 bits, read as signed. This is the
  narrowing cast \<^verbatim>\<open>(int)\<close> of a \<^verbatim>\<open>size_t\<close>.
\<close>

definition int_of_size_t :: "nat \<Rightarrow> int" where
  "int_of_size_t n = sint (word_of_nat n :: 32 word)"

text \<open>
  \<^verbatim>\<open>String::Utf8Length()\<close>: the number of bytes of the UTF-8 encoding, returned as a
  C \<^verbatim>\<open>int\<close>.
\<close>

definition Utf8Length :: "16 word list \<Rightarrow> int" where
  "Utf8Length s = int_of_size_t (length (utf8_encoding s))"

text \<open>
  \<^verbatim>\<open>String::WriteUtf8(buffer, capacity)\<close> with its default options: whole characters
  are written while they fit in \<^verbatim>\<open>capacity\<close> bytes (the capacity \<open>-1\<close> is no limit),
  then a terminating zero if there is room left for it.
\<close>

fun write_chars :: "byte list list \<Rightarrow> nat \<Rightarrow> byte list" where
  "write_chars [] capacity = []"
| "write_chars (c # cs) capacity =
     (if length c \<le> capacity then c @ write_chars cs (capacity - length c) else [])"

definition WriteUtf8 :: "memory \<Rightarrow> 16 word list \<Rightarrow> addr \<Rightarrow> int \<Rightarrow> memory" where
  "WriteUtf8 mem s buffer capacity =
     (let chars = map utf8_encode_char (utf16_decode s);
          written = (if capacity = - 1 then concat chars else write_chars chars (nat capacity));
          terminated = (if capacity = - 1 \<or> int (length written) < capacity then written @ [0] else written)
      in store_bytes mem buffer terminated)"

text \<open>
  The field \<^verbatim>\<open>len\<close> is a C \<^verbatim>\<open>int\<close>, kept as its signed value; both arms of
  the constructor fill it with a value narrowed to 32 bits.
\<close>

record StringParams =
  owned :: bool
  str :: addr
  len :: int

text \<open>
  The constructor of \<^verbatim>\<open>StringParams\<close>; it returns the heap it leaves behind. The
  array size of \<^verbatim>\<open>new uint8_t[len]\<close> is a signed \<^verbatim>\<open>int\<close>: when it is negative the
  allocation throws \<^verbatim>\<open>std::bad_array_new_length\<close>, nothing is written and there is no
  parameter, which is the result \<open>None\<close>.
\<close>

definition StringParams_new :: "heap \<Rightarrow> host_arg \<Rightarrow> (StringParams \<times> heap) option" where
  "StringParams_new h keyVal =
     (case keyVal of
        ArgString s \<Rightarrow>
          let n = Utf8Length s in
          if n < 0 then None
          else
            let (p, h1) = new_array h (nat n);
                h2 = h1\<lparr>cells := WriteUtf8 (cells h1) s p n\<rparr>
            in Some (\<lparr>owned = True, str = p, len = n\<rparr>, h2)
      | ArgBuffer data data_length \<Rightarrow>
          Some (\<lparr>owned = False, str = data, len = int_of_size_t data_length\<rparr>, h))"

text \<open>The bytes a native call sees through the pair \<^verbatim>\<open>(str, len)\<close>.\<close>

definition view :: "heap \<Rightarrow> StringParams \<Rightarrow> byte list" where
  "view h sp = read_bytes (cells h) (str sp) (nat (len sp))"

section \<open>The transaction dispatcher\<close>

text \<open>
  A synchronous verb either returns a host value or throws. What it throws to the host is
  \<^verbatim>\<open>FdbError::NewInstance(errorCode)\<close>; what leaves it when the marshaler cannot
  allocate is the C++ exception \<^verbatim>\<open>std::bad_array_new_length\<close>.
\<close>

datatype thrown = FdbError fdb_error_t | bad_array_new_length

datatype FDBConflictRangeType = FDB_CONFLICT_RANGE_TYPE_READ | FDB_CONFLICT_RANGE_TYPE_WRITE

text \<open>
  The two synchronous entry points of the native client that return an error code. They
  are parameters of the dispatcher; \<^typ>\<open>'tr\<close> is the native transaction pointer.
\<close>

record 'tr fdb_c =
  fdb_transaction_add_conflict_range ::
    "'tr \<Rightarrow> memory \<Rightarrow> addr \<Rightarrow> int \<Rightarrow> addr \<Rightarrow> int \<Rightarrow> FDBConflictRangeType \<Rightarrow> fdb_error_t"
  fdb_transaction_get_committed_version :: "'tr \<Rightarrow> fdb_error_t \<times> 64 word"

definition AddConflictRange ::
  "'tr fdb_c \<Rightarrow> 'tr \<Rightarrow> heap \<Rightarrow> host_arg \<Rightarrow> host_arg \<Rightarrow> FDBConflictRangeType \<Rightarrow> thrown + js_value" where
  "AddConflictRange api tr h info0 info1 type =
     (case StringParams_new h info0 of
        None \<Rightarrow> Inl bad_array_new_length
      | Some (start, h1) \<Rightarrow>
          (case StringParams_new h1 info1 of
             None \<Rightarrow> Inl bad_array_new_length
           | Some (end', h2) \<Rightarrow>
               let errorCode = fdb_transaction_add_conflict_range api tr (cells h2)
                                 (str start) (len start) (str end') (len end') type
               in if errorCode \<noteq> 0 then Inl (FdbError errorCode) else Inr JSUndefined))"

definition AddReadConflictRange ::
  "'tr fdb_c \<Rightarrow> 'tr \<Rightarrow> heap \<Rightarrow> host_arg \<Rightarrow> host_arg \<Rightarrow> thrown + js_value" where
  "AddReadConflictRange api tr h info0 info1 =
     AddConflictRange api tr h info0 info1 FDB_CONFLICT_RANGE_TYPE_READ"

definition AddWriteConflictRange ::
  "'tr fdb_c \<Rightarrow> 'tr \<Rightarrow> heap \<Rightarrow> host_arg \<Rightarrow> host_arg \<Rightarrow> thrown + js_value" where
  "AddWriteConflictRange api tr h info0 info1 =
     AddConflictRange api tr h info0 info1 FDB_CONFLICT_RANGE_TYPE_WRITE"

definition GetCommittedVersion :: "'tr fdb_c \<Rightarrow> 'tr \<Rightarrow> thrown + js_value" where
  "GetCommittedVersion api tr =
     (case fdb_transaction_get_committed_version api tr of (errorCode, version) \<Rightarrow>
        if errorCode \<noteq> 0 then Inl (FdbError errorCode)
        else Inr (JSNumber (int64_to_double version)))"

text \<open>
  An asynchronous verb issues one native call that returns a future and hands that
  future to \<^verbatim>\<open>futureToJS\<close> together with the decode function for its result. The
  pending operation is recorded as that pair: which native entry point was called, and
  which decode function was passed.
\<close>

datatype native_call =
    fdb_transaction_commit
  | fdb_transaction_get_read_version

datatype decoder =
    D_ignoreResult
  | D_getValue
  | D_getKey
  | D_getKeyValueList
  | D_getStringArray
  | D_getVersion

definition decode :: "decoder \<Rightarrow> memory \<Rightarrow> FDBFuture \<Rightarrow> fdb_error_t \<times> js_value" where
  "decode d mem future =
     (case d of
        D_ignoreResult \<Rightarrow> ignoreResult future
      | D_getValue \<Rightarrow> getValue mem future
      | D_getKey \<Rightarrow> getKey mem future
      | D_getKeyValueList \<Rightarrow> getKeyValueList mem future
      | D_getStringArray \<Rightarrow> getStringArray future
      | D_getVersion \<Rightarrow> getVersion future)"

record pending_operation =
  issued :: native_call
  extractor :: decoder

definition futureToJS :: "native_call \<Rightarrow> decoder \<Rightarrow> pending_operation" where
  "futureToJS f d = \<lparr>issued = f, extractor = d\<rparr>"

definition Commit :: pending_operation where
  "Commit = futureToJS fdb_transaction_commit D_ignoreResult"

definition GetReadVersion :: pending_operation where
  "GetReadVersion = futureToJS fdb_transaction_get_read_version D_getVersion"

definition GetVersionStamp :: pending_operation where
  "GetVersionStamp = futureToJS fdb_transaction_get_read_version D_getKey"

section \<open>The watch handle\<close>






section \<open>Opening a database\<close>

text \<open>
  The module state of \<^verbatim>\<open>lib/index.ts\<close>: the guard \<^verbatim>\<open>initCalled\<close>, and what the
  module has done to the world so far, namely how often it called
  \<^verbatim>\<open>nativeMod.startNetwork()\<close>, how many exit handlers it registered and how many
  databases it created.
\<close>

record module_state =
  initCalled :: bool
  startNetwork_calls :: nat
  exit_handlers :: nat
  databases_created :: nat

text \<open>
  What a call meets in its environment: what \<^verbatim>\<open>apiVersion.get()\<close> answers,
  whether \<^verbatim>\<open>nativeMod.startNetwork()\<close>, if it is called, throws, and whether
  creating the database and setting its options, if it comes to that, throws.
\<close>

record environment =
  apiVersion_get :: "nat option"
  startNetwork_throws :: bool
  createDatabase_throws :: bool

datatype outcome = Returned | Threw

definition init :: "environment \<Rightarrow> module_state \<Rightarrow> outcome \<times> module_state" where
  "init env s =
     (if apiVersion_get env = None then (Threw, s)
      else if initCalled s then (Returned, s)
      else
        let s1 = s\<lparr>initCalled := True\<rparr>;
            s2 = s1\<lparr>startNetwork_calls := Suc (startNetwork_calls s1)\<rparr>
        in if startNetwork_throws env then (Threw, s2)
           else (Returned, s2\<lparr>exit_handlers := Suc (exit_handlers s2)\<rparr>))"

definition open_db :: "environment \<Rightarrow> module_state \<Rightarrow> outcome \<times> module_state" where
  "open_db env s =
     (case init env s of
        (Threw, s1) \<Rightarrow> (Threw, s1)
      | (Returned, s1) \<Rightarrow>
          if createDatabase_throws env then (Threw, s1)
          else (Returned, s1\<lparr>databases_created := Suc (databases_created s1)\<rparr>))"

text \<open>
  The calls that open a database: \<^verbatim>\<open>open\<close>, its deprecated alias \<^verbatim>\<open>openSync\<close>, and
  the two methods of the stub cluster. Each one calls \<^verbatim>\<open>open\<close>.
\<close>

datatype call = Call_open | Call_openSync | Call_openDatabase | Call_openDatabaseSync

fun perform :: "call \<Rightarrow> environment \<Rightarrow> module_state \<Rightarrow> outcome \<times> module_state" where
  "perform Call_open env s = open_db env s"
| "perform Call_openSync env s = open_db env s"
| "perform Call_openDatabase env s = open_db env s"
| "perform Call_openDatabaseSync env s = open_db env s"

text \<open>A sequence of calls, each in its own environment; a call that throws leaves its state behind.\<close>

fun run :: "(call \<times> environment) list \<Rightarrow> module_state \<Rightarrow> module_state" where
  "run [] s = s"
| "run ((c, env) # cs) s = run cs (snd (perform c env s))"

definition initial_state :: module_state where
  "initial_state = \<lparr>initCalled = False, startNetwork_calls = 0, exit_handlers = 0, databases_created = 0\<rparr>"

section \<open>Concrete inputs\<close>

text \<open>A memory in which every cell holds the low byte of its own address.\<close>

definition example_memory :: memory where
  "example_memory a = of_nat a"

definition example_heap :: heap where
  "example_heap = \<lparr>cells = example_memory, brk = 100\<rparr>"

text \<open>
  A completed future on which every accessor succeeds: a present value of three bytes at
  address 5, a key of two bytes at address 8, two key-value pairs with more to come, one
  address string and the version 12345.
\<close>

definition example_kv :: "nat \<Rightarrow> FDBKeyValue" where
  "example_kv i = \<lparr>kv_key = 10 * i, kv_key_length = 2, kv_value = 100 + i, kv_value_length = 1\<rparr>"

definition example_future :: FDBFuture where
  "example_future =
     \<lparr>fdb_future_get_error = 0,
      fdb_future_get_value = (0, 1, 5, 3),
      fdb_future_get_key = (0, 8, 2),
      fdb_future_get_keyvalue_array = (0, example_kv, 2, 1),
      fdb_future_get_string_array = (0, (\<lambda>i. [0x31, 0x32]), 1),
      fdb_future_get_version = (0, 12345)\<rparr>"

text \<open>
  A native client that rejects a conflict range whose start is at address 7 with the
  code 2000, and knows a committed version for every transaction but transaction 0.
\<close>

definition example_api :: "nat fdb_c" where
  "example_api =
     \<lparr>fdb_transaction_add_conflict_range = (\<lambda>tr mem p1 n1 p2 n2 t. if p1 = 7 then 2000 else 0),
      fdb_transaction_get_committed_version = (\<lambda>tr. if tr = 0 then (2021, 0) else (0, 12345))\<rparr>"





text \<open>An environment in which the API version is set and every native call succeeds.\<close>

definition example_environment :: environment where
  "example_environment =
     \<lparr>apiVersion_get = Some 510, startNetwork_throws = False, createDatabase_throws = False\<rparr>"

declare bit_length.simps [simp del]
declare getKeyValueList_loop.simps [simp del]
declare getStringArray_loop.simps [simp del]

section \<open>Reading and writing memory\<close>

lemma length_read_bytes: "length (read_bytes mem a n) = n"
  by (simp add: read_bytes_def)

lemma store_bytes_apply:
  "store_bytes mem a bs x = (if a \<le> x \<and> x < a + length bs then bs ! (x - a) else mem x)"
proof (induction bs arbitrary: mem a)
  case Nil
  show ?case by auto
next
  case (Cons b bs)
  show ?case
    by (auto simp: Cons.IH nth_Cons' Suc_diff_le)
qed

lemma read_store_bytes: "read_bytes (store_bytes mem a bs) a (length bs) = bs"
  by (rule nth_equalityI) (simp_all add: read_bytes_def store_bytes_apply)

section \<open>The byte-value decode\<close>

text \<open>
  C2. On a completed get future whose accessor reports the error code zero,
  \<^verbatim>\<open>getValue\<close> returns null when the value-present flag is zero, and otherwise a buffer
  holding the \<^verbatim>\<open>valueLength\<close> bytes of the region that starts at \<^verbatim>\<open>value\<close>. Null is
  not the empty buffer, which is what a present value of length zero decodes to.
\<close>

theorem getValue_decode:
  assumes "fdb_future_get_value future = (0, valuePresent, p, valueLength)"
  shows "getValue mem future =
           (0, if valuePresent = 0 then JSNull
               else JSBuffer (read_bytes mem p (unat valueLength)))
         \<and> JSNull \<noteq> JSBuffer []"
  using assms by (simp add: getValue_def CopyBuffer_def read_bytes_def)

theorem getValue_decode_witness:
  "getValue example_memory example_future = (0, JSBuffer [5, 6, 7])
   \<and> getValue example_memory (example_future\<lparr>fdb_future_get_value := (0, 0, 5, 3)\<rparr>) = (0, JSNull)
   \<and> getValue example_memory (example_future\<lparr>fdb_future_get_value := (0, 1, 5, 0)\<rparr>) = (0, JSBuffer [])"
  using getValue_decode [of example_future 1 5 3 example_memory]
    getValue_decode [of "example_future\<lparr>fdb_future_get_value := (0, 0, 5, 3)\<rparr>" 0 5 3 example_memory]
    getValue_decode [of "example_future\<lparr>fdb_future_get_value := (0, 1, 5, 0)\<rparr>" 1 5 0 example_memory]
  by (simp add: example_future_def example_memory_def read_bytes_def upt_rec)

section \<open>Errors skip the decode\<close>

text \<open>
  C3. Whenever the accessor of a decode function reports a non-zero error code, the
  function returns that code together with undefined, whatever the out-parameters of
  the accessor hold: none of them reaches a host value. This holds for the byte-value,
  key, key-value-list, string-list and version decodes.
\<close>

theorem decode_skipped_on_error:
  assumes "e \<noteq> 0"
  shows "getValue mem (future\<lparr>fdb_future_get_value := (e, valuePresent, p, valueLength)\<rparr>) = (e, JSUndefined)
       \<and> getKey mem (future\<lparr>fdb_future_get_key := (e, k, keyLength)\<rparr>) = (e, JSUndefined)
       \<and> getKeyValueList mem (future\<lparr>fdb_future_get_keyvalue_array := (e, kv, n, more')\<rparr>) = (e, JSUndefined)
       \<and> getStringArray (future\<lparr>fdb_future_get_string_array := (e, strings, stringCount)\<rparr>) = (e, JSUndefined)
       \<and> getVersion (future\<lparr>fdb_future_get_version := (e, version)\<rparr>) = (e, JSUndefined)"
  using assms
  by (simp add: getValue_def getKey_def getKeyValueList_def getStringArray_def getVersion_def)

theorem decode_skipped_on_error_witness:
  "(1020 :: fdb_error_t) \<noteq> 0
   \<and> getValue example_memory (example_future\<lparr>fdb_future_get_value := (1020, 1, 5, 3)\<rparr>) = (1020, JSUndefined)
   \<and> getKey example_memory (example_future\<lparr>fdb_future_get_key := (1020, 8, 2)\<rparr>) = (1020, JSUndefined)
   \<and> getKeyValueList example_memory (example_future\<lparr>fdb_future_get_keyvalue_array := (1020, example_kv, 2, 1)\<rparr>)
       = (1020, JSUndefined)
   \<and> getStringArray (example_future\<lparr>fdb_future_get_string_array := (1020, (\<lambda>i. []), 1)\<rparr>) = (1020, JSUndefined)
   \<and> getVersion (example_future\<lparr>fdb_future_get_version := (1020, 7)\<rparr>) = (1020, JSUndefined)"
  using decode_skipped_on_error [where e = 1020 and mem = example_memory and future = example_future
      and valuePresent = 1 and p = 5 and valueLength = 3 and k = 8 and keyLength = 2
      and kv = example_kv and n = 2 and more' = 1 and strings = "\<lambda>i. []" and stringCount = 1
      and version = 7]
  by simp

section \<open>The version stamp verb\<close>

text \<open>
  C4. \<^verbatim>\<open>GetVersionStamp\<close> issues the native call \<^verbatim>\<open>fdb_transaction_get_read_version\<close>,
  the very call \<^verbatim>\<open>GetReadVersion\<close> issues, and hands its future to the key decode. So
  what the host receives does not depend on the version that future holds.
\<close>

theorem GetVersionStamp_reuses_read_version:
  "issued GetVersionStamp = fdb_transaction_get_read_version
   \<and> issued GetVersionStamp = issued GetReadVersion
   \<and> extractor GetVersionStamp = D_getKey
   \<and> decode (extractor GetVersionStamp) mem future = getKey mem future
   \<and> decode (extractor GetVersionStamp) mem (future\<lparr>fdb_future_get_version := v\<rparr>)
       = decode (extractor GetVersionStamp) mem future"
  by (simp add: GetVersionStamp_def GetReadVersion_def futureToJS_def decode_def getKey_def)

section \<open>Marshaling\<close>

lemma write_chars_all: "write_chars cs (length (concat cs)) = concat cs"
  by (induction cs) simp_all

lemma int_of_size_t_exact: "n < 2 ^ 31 \<Longrightarrow> int_of_size_t n = int n"
  by (simp add: int_of_size_t_def signed_of_nat signed_take_bit_int_eq_self)

lemma int_of_size_t_range: "- (2 ^ 31) \<le> int_of_size_t n \<and> int_of_size_t n < 2 ^ 31"
  using sint_ge [of "word_of_nat n :: 32 word"] sint_lt [of "word_of_nat n :: 32 word"]
  by (simp add: int_of_size_t_def)

lemma WriteUtf8_exact:
  "length (utf8_encoding s) < 2 ^ 31 \<Longrightarrow>
   WriteUtf8 mem s p (Utf8Length s) = store_bytes mem p (utf8_encoding s)"
  by (simp add: WriteUtf8_def Utf8Length_def int_of_size_t_exact utf8_encoding_def
        write_chars_all Let_def)

lemma StringParams_new_string:
  "length (utf8_encoding s) < 2 ^ 31 \<Longrightarrow>
   StringParams_new h (ArgString s) =
     Some (\<lparr>owned = True, str = brk h, len = int (length (utf8_encoding s))\<rparr>,
           \<lparr>cells = store_bytes (cells h) (brk h) (utf8_encoding s),
            brk = brk h + length (utf8_encoding s)\<rparr>)"
  by (simp add: StringParams_new_def new_array_def WriteUtf8_exact Let_def)
     (simp add: Utf8Length_def int_of_size_t_exact)

text \<open>Whatever is marshaled, the length field holds a value a C \<^verbatim>\<open>int\<close> can hold.\<close>

lemma StringParams_len_range:
  "StringParams_new h keyVal = Some (sp, h') \<Longrightarrow> - (2 ^ 31) \<le> len sp \<and> len sp < 2 ^ 31"
  using int_of_size_t_range
  by (cases keyVal)
     (auto simp: StringParams_new_def Utf8Length_def Let_def new_array_def split: if_splits)

text \<open>
  C5, as the code has it. A string whose UTF-8 encoding has fewer than \<open>2 ^ 31\<close> bytes
  is marshaled into a fresh block that the parameter owns: the block starts at the old
  end of the heap, is as long as the encoding and holds exactly the encoding, and no
  cell outside the block changes. A buffer of fewer than \<open>2 ^ 31\<close> bytes is not copied:
  the parameter does not own its bytes, points at the buffer's own data, has the buffer's
  length, and the heap is left as it was, so the view is the buffer's bytes.
\<close>

theorem StringParams_marshal:
  assumes "length (utf8_encoding s) < 2 ^ 31" and "data_length < 2 ^ 31"
  shows "(\<exists>sp h'. StringParams_new h (ArgString s) = Some (sp, h')
            \<and> owned sp \<and> str sp = brk h \<and> len sp = int (length (utf8_encoding s))
            \<and> view h' sp = utf8_encoding s
            \<and> (\<forall>a. a < str sp \<or> str sp + length (utf8_encoding s) \<le> a \<longrightarrow> cells h' a = cells h a))
       \<and> (\<exists>sp h'. StringParams_new h (ArgBuffer data data_length) = Some (sp, h')
            \<and> \<not> owned sp \<and> str sp = data \<and> len sp = int data_length \<and> h' = h
            \<and> view h' sp = read_bytes (cells h) data data_length)"
  using assms
  by (simp add: StringParams_new_string view_def read_store_bytes store_bytes_apply)
     (simp add: StringParams_new_def int_of_size_t_exact)

theorem StringParams_marshal_witness:
  "length (utf8_encoding [0x41, 0xE9, 0x20AC]) < 2 ^ 31
   \<and> (3 :: nat) < 2 ^ 31
   \<and> map_option (\<lambda>(sp, h'). (owned sp, str sp, len sp, view h' sp))
        (StringParams_new example_heap (ArgString [0x41, 0xE9, 0x20AC]))
       = Some (True, 100, 6, [0x41, 0xC3, 0xA9, 0xE2, 0x82, 0xAC])
   \<and> map_option (\<lambda>(sp, h'). (owned sp, str sp, len sp, view h' sp, h'))
        (StringParams_new example_heap (ArgBuffer 7 3))
       = Some (False, 7, 3, [7, 8, 9], example_heap)"
proof -
  have enc: "utf8_encoding [0x41, 0xE9, 0x20AC] = [0x41, 0xC3, 0xA9, 0xE2, 0x82, 0xAC]"
    by (simp add: utf8_encoding_def utf8_encode_char_def is_lead_def is_trail_def)
  have short: "length (utf8_encoding [0x41, 0xE9, 0x20AC]) < 2 ^ 31"
    by (simp add: enc)
  have small: "(3 :: nat) < 2 ^ 31" by simp
  have bytes: "read_bytes (cells example_heap) 7 3 = [7, 8, 9]"
    by (simp add: read_bytes_def example_heap_def example_memory_def upt_rec)
  have start: "brk example_heap = 100"
    by (simp add: example_heap_def)
  from StringParams_marshal [OF short small, of example_heap 7]
  show ?thesis
    unfolding enc bytes start by auto
qed

lemma utf16_decode_not_lead:
  "\<not> is_lead u \<Longrightarrow> utf16_decode (u # us) = unat u # utf16_decode us"
  by (cases us) simp_all

lemma utf16_decode_replicate:
  "\<not> is_lead u \<Longrightarrow> utf16_decode (replicate n u) = replicate n (unat u)"
  by (induction n) (simp_all add: utf16_decode_not_lead)

lemma length_concat_replicate: "length (concat (replicate n bs)) = n * length bs"
  by (induction n) simp_all

lemma length_utf8_two_and_euros:
  "length (utf8_encoding (0x41 # 0x41 # replicate n 0x20AC)) = 2 + 3 * n"
  by (simp add: utf8_encoding_def utf16_decode_not_lead utf16_decode_replicate is_lead_def
        utf8_encode_char_def length_concat_replicate)

text \<open>
  C5, as the claim has it, fails on both arms at \<open>2 ^ 31\<close> bytes. The string of two
  letters and 715827882 euro signs has an encoding of \<open>2 ^ 31\<close> bytes; its length as a
  C \<^verbatim>\<open>int\<close> is negative, so the allocation throws and there is no copy. A buffer of
  \<open>2 ^ 31\<close> bytes gets a negative length too, and the view covers none of its bytes.
\<close>

theorem StringParams_long_input_counterexample:
  "length (utf8_encoding (0x41 # 0x41 # replicate 715827882 0x20AC)) = 2147483648
   \<and> StringParams_new example_heap (ArgString (0x41 # 0x41 # replicate 715827882 0x20AC)) = None
   \<and> map_option (\<lambda>(sp, h'). (len sp, view h' sp)) (StringParams_new example_heap (ArgBuffer 7 2147483648))
       = Some (- 2147483648, [])
   \<and> length (read_bytes (cells example_heap) 7 2147483648) = 2147483648"
  by (simp add: StringParams_new_def Utf8Length_def length_utf8_two_and_euros
        int_of_size_t_def view_def read_bytes_def)

section \<open>Synchronous verbs\<close>

text \<open>
  C6. The conflict-range verbs and \<^verbatim>\<open>GetCommittedVersion\<close> throw
  \<^verbatim>\<open>FdbError\<close> with the native error code, at the call, exactly when the native call
  returns a non-zero code; on the code zero they return normally, the conflict-range
  verbs with nothing and \<^verbatim>\<open>GetCommittedVersion\<close> with the version as a number.
\<close>

theorem synchronous_errors_thrown:
  assumes "StringParams_new h info0 = Some (start, h1)"
      and "StringParams_new h1 info1 = Some (end', h2)"
      and "fdb_transaction_add_conflict_range api tr (cells h2)
             (str start) (len start) (str end') (len end') FDB_CONFLICT_RANGE_TYPE_READ = er"
      and "fdb_transaction_add_conflict_range api tr (cells h2)
             (str start) (len start) (str end') (len end') FDB_CONFLICT_RANGE_TYPE_WRITE = ew"
      and "fdb_transaction_get_committed_version api tr = (ec, version)"
  shows "AddReadConflictRange api tr h info0 info1 =
           (if er \<noteq> 0 then Inl (FdbError er) else Inr JSUndefined)
       \<and> AddWriteConflictRange api tr h info0 info1 =
           (if ew \<noteq> 0 then Inl (FdbError ew) else Inr JSUndefined)
       \<and> GetCommittedVersion api tr =
           (if ec \<noteq> 0 then Inl (FdbError ec) else Inr (JSNumber (int64_to_double version)))"
  using assms
  by (simp add: AddReadConflictRange_def AddWriteConflictRange_def AddConflictRange_def
        GetCommittedVersion_def)

theorem synchronous_errors_thrown_witness:
  "AddReadConflictRange example_api 0 example_heap (ArgBuffer 7 3) (ArgBuffer 20 1) = Inl (FdbError 2000)
   \<and> AddWriteConflictRange example_api 0 example_heap (ArgBuffer 7 3) (ArgBuffer 20 1) = Inl (FdbError 2000)
   \<and> GetCommittedVersion example_api 0 = Inl (FdbError 2021)
   \<and> AddReadConflictRange example_api 1 example_heap (ArgBuffer 8 3) (ArgBuffer 20 1) = Inr JSUndefined
   \<and> AddWriteConflictRange example_api 1 example_heap (ArgBuffer 8 3) (ArgBuffer 20 1) = Inr JSUndefined
   \<and> GetCommittedVersion example_api 1 = Inr (JSNumber (int64_to_double 12345))"
proof -
  have a: "StringParams_new example_heap (ArgBuffer p n)
             = Some (\<lparr>owned = False, str = p, len = int_of_size_t n\<rparr>, example_heap)" for p n
    by (simp add: StringParams_new_def)
  have bad: "fdb_transaction_add_conflict_range example_api (0::nat) (cells example_heap)
             (str \<lparr>owned = False, str = 7, len = int_of_size_t 3\<rparr>)
             (len \<lparr>owned = False, str = 7, len = int_of_size_t 3\<rparr>)
             (str \<lparr>owned = False, str = 20, len = int_of_size_t 1\<rparr>)
             (len \<lparr>owned = False, str = 20, len = int_of_size_t 1\<rparr>) t = 2000" for t
    by (simp add: example_api_def)
  have good: "fdb_transaction_add_conflict_range example_api (1::nat) (cells example_heap)
             (str \<lparr>owned = False, str = 8, len = int_of_size_t 3\<rparr>)
             (len \<lparr>owned = False, str = 8, len = int_of_size_t 3\<rparr>)
             (str \<lparr>owned = False, str = 20, len = int_of_size_t 1\<rparr>)
             (len \<lparr>owned = False, str = 20, len = int_of_size_t 1\<rparr>) t = 0" for t
    by (simp add: example_api_def)
  have c0: "fdb_transaction_get_committed_version example_api (0::nat) = (2021, 0)"
    by (simp add: example_api_def)
  have c1: "fdb_transaction_get_committed_version example_api (1::nat) = (0, 12345)"
    by (simp add: example_api_def)
  from synchronous_errors_thrown [OF a a bad bad c0] synchronous_errors_thrown [OF a a good good c1]
  show ?thesis by simp
qed

section \<open>Versions as host numbers\<close>

lemma bit_length_le: "n < 2 ^ k \<Longrightarrow> bit_length n \<le> k"
proof (induction k arbitrary: n)
  case 0
  then show ?case by (subst bit_length.simps) simp
next
  case (Suc k)
  show ?case
  proof (cases "n = 0")
    case True
    then show ?thesis by (subst bit_length.simps) simp
  next
    case False
    have "n div 2 < 2 ^ k" using Suc.prems by simp
    then have "bit_length (n div 2) \<le> k" by (rule Suc.IH)
    then show ?thesis using False by (subst bit_length.simps) simp
  qed
qed

lemma bit_length_eq: "2 ^ k \<le> n \<Longrightarrow> n < 2 ^ Suc k \<Longrightarrow> bit_length n = Suc k"
proof (induction k arbitrary: n)
  case 0
  then have "n = Suc 0" by simp
  then show ?case by (simp add: bit_length.simps [of "Suc 0"] bit_length.simps [of 0])
next
  case (Suc k)
  have "2 ^ k \<le> n div 2" and "n div 2 < 2 ^ Suc k" using Suc.prems by simp_all
  then have "bit_length (n div 2) = Suc k" by (rule Suc.IH)
  moreover have "0 < (2::nat) ^ Suc k" by simp
  with Suc.prems(1) have "n \<noteq> 0" by linarith
  ultimately show ?case by (subst bit_length.simps) simp
qed

lemma less_power_bit_length: "n < 2 ^ bit_length n"
proof (induction n rule: bit_length.induct)
  case (1 n)
  show ?case
  proof (cases "n = 0")
    case True
    then show ?thesis by simp
  next
    case False
    then have "n div 2 < 2 ^ bit_length (n div 2)" by (rule "1.IH")
    then have "n < 2 * 2 ^ bit_length (n div 2)" by linarith
    then show ?thesis using False by (subst bit_length.simps) simp
  qed
qed

lemma round_to_double_exact: "n \<le> 2 ^ 53 \<Longrightarrow> round_to_double n = n"
proof (cases "n < 2 ^ 53")
  case True
  then have "bit_length n - 53 = 0" using bit_length_le [of n 53] by simp
  then show ?thesis by (simp add: round_to_double_def)
next
  case False
  assume "n \<le> 2 ^ 53"
  with False have n: "n = 2 ^ 53" by simp
  have "bit_length n - 53 = 1" using bit_length_eq [of 53 n] by (simp add: n)
  then show ?thesis by (simp add: round_to_double_def Let_def n)
qed

text \<open>
  The conversion gives a multiple of the unit in the last place whose significand has at
  most 53 bits (or is \<open>2 ^ 53\<close>, the next power of two), and it is off by at most half
  a unit: it rounds to nearest, it does not truncate.
\<close>

lemma half_unit_above: "a \<le> 2 * b \<Longrightarrow> b < a \<Longrightarrow> 2 * \<bar>a - b\<bar> \<le> a" for a b :: int
  by arith

lemma half_unit_below: "2 * b \<le> a \<Longrightarrow> 0 \<le> b \<Longrightarrow> 2 * \<bar>- b\<bar> \<le> a" for a b :: int
  by arith

lemma round_to_double_nearest:
  "2 ^ (bit_length n - 53) dvd round_to_double n
   \<and> round_to_double n \<le> 2 ^ 53 * 2 ^ (bit_length n - 53)
   \<and> 2 * \<bar>int (round_to_double n) - int n\<bar> \<le> 2 ^ (bit_length n - 53)"
proof -
  define e where "e = bit_length n - 53"
  define q where "q = n div 2 ^ e"
  define r where "r = n mod 2 ^ e"
  have n: "n = q * 2 ^ e + r"
    unfolding q_def r_def by (rule div_mult_mod_eq [symmetric])
  have r: "r < 2 ^ e" by (simp add: r_def)
  have "n < 2 ^ (53 + e)"
  proof (cases "bit_length n \<le> 53")
    case True
    have "n < 2 ^ bit_length n" by (rule less_power_bit_length)
    also have "\<dots> \<le> 2 ^ (53 + e)" using True by (intro power_increasing) simp_all
    finally show ?thesis .
  next
    case False
    then have "53 + e = bit_length n" by (simp add: e_def)
    then show ?thesis using less_power_bit_length [of n] by simp
  qed
  then have "q < 2 ^ 53"
    by (simp add: q_def less_mult_imp_div_less power_add)
  then have q: "q + 1 \<le> 2 ^ 53" by simp
  have up: "round_to_double n = (q + 1) * 2 ^ e" if "2 * r > 2 ^ e \<or> (2 * r = 2 ^ e \<and> odd q)"
    using that by (simp add: round_to_double_def Let_def e_def [symmetric] q_def [symmetric] r_def [symmetric])
  have down: "round_to_double n = q * 2 ^ e" if "\<not> (2 * r > 2 ^ e \<or> (2 * r = 2 ^ e \<and> odd q))"
    using that by (simp add: round_to_double_def Let_def e_def [symmetric] q_def [symmetric] r_def [symmetric])
  show ?thesis
  proof (cases "2 * r > 2 ^ e \<or> (2 * r = 2 ^ e \<and> odd q)")
    case True
    have "(q + 1) * 2 ^ e \<le> 2 ^ 53 * 2 ^ e" using q by (rule mult_le_mono1)
    moreover have "2 * \<bar>int ((q + 1) * 2 ^ e) - int n\<bar> \<le> 2 ^ e"
    proof -
      have d: "int ((q + 1) * 2 ^ e) - int n = 2 ^ e - int r"
        by (simp add: n algebra_simps)
      have "2 ^ e \<le> 2 * r" using True by auto
      then have half: "(2::int) ^ e \<le> 2 * int r"
        using of_nat_mono [of "2 ^ e" "2 * r", where 'a = int] by simp
      have "int r < int (2 ^ e)" using r by (simp only: of_nat_less_iff)
      then have below: "int r < 2 ^ e" by simp
      show ?thesis unfolding d using half below by (rule half_unit_above)
    qed
    ultimately show ?thesis
      unfolding e_def [symmetric] up [OF True] by simp
  next
    case False
    have "q * 2 ^ e \<le> 2 ^ 53 * 2 ^ e" using q by (intro mult_le_mono1) simp
    moreover have "2 * \<bar>int (q * 2 ^ e) - int n\<bar> \<le> 2 ^ e"
    proof -
      have d: "int (q * 2 ^ e) - int n = - int r" by (simp add: n)
      have "2 * r \<le> 2 ^ e" using False by auto
      then have half: "2 * int r \<le> 2 ^ e"
        using of_nat_mono [of "2 * r" "2 ^ e", where 'a = int] by simp
      have "0 \<le> int r" by simp
      with half show ?thesis unfolding d by (rule half_unit_below)
    qed
    ultimately show ?thesis
      unfolding e_def [symmetric] down [OF False] by simp
  qed
qed

lemma int64_to_double_exact:
  assumes "- (2 ^ 53) \<le> sint v" and "sint v \<le> 2 ^ 53"
  shows "int64_to_double v = sint v"
proof (cases "sint v < 0")
  case True
  then have "nat (- sint v) \<le> 2 ^ 53" using assms(1) by (simp add: nat_le_iff)
  then show ?thesis using True by (simp add: int64_to_double_def round_to_double_exact)
next
  case False
  then have "nat (sint v) \<le> 2 ^ 53" using assms(2) by (simp add: nat_le_iff)
  then show ?thesis using False by (simp add: int64_to_double_def round_to_double_exact)
qed

lemma bit_length_54:
  "bit_length 9007199254740993 = 54" "bit_length 9007199254740995 = 54"
  using bit_length_eq [of 53 9007199254740993] bit_length_eq [of 53 9007199254740995]
  by simp_all

text \<open>
  C7, as the code has it. A version whose magnitude is at most \<open>2 ^ 53\<close> reaches the
  host exactly, through the version decode and through \<^verbatim>\<open>GetCommittedVersion\<close> alike.
\<close>

theorem version_exact_up_to_2_53:
  assumes "- (2 ^ 53) \<le> sint v" and "sint v \<le> 2 ^ 53"
      and "fdb_future_get_version future = (0, v)"
      and "fdb_transaction_get_committed_version api tr = (0, v)"
  shows "getVersion future = (0, JSNumber (sint v))
       \<and> GetCommittedVersion api tr = Inr (JSNumber (sint v))"
  using assms by (simp add: getVersion_def GetCommittedVersion_def int64_to_double_exact)

theorem version_exact_up_to_2_53_witness:
  "getVersion example_future = (0, JSNumber 12345)
   \<and> GetCommittedVersion example_api 1 = Inr (JSNumber 12345)"
proof -
  have lo: "- (2 ^ 53) \<le> sint (12345 :: 64 word)" by simp
  have hi: "sint (12345 :: 64 word) \<le> 2 ^ 53" by simp
  have f: "fdb_future_get_version example_future = (0, 12345)"
    by (simp add: example_future_def)
  have c: "fdb_transaction_get_committed_version example_api (1::nat) = (0, 12345)"
    by (simp add: example_api_def)
  from version_exact_up_to_2_53 [OF lo hi f c] show ?thesis by simp
qed

text \<open>
  C7, as the claim has it, fails at the version \<open>2 ^ 53 + 1\<close>, the first one beyond the
  bound: the host receives \<open>2 ^ 53\<close>. At \<open>2 ^ 53 + 3\<close> it receives \<open>2 ^ 53 + 4\<close>.
\<close>

theorem version_rounded_counterexample:
  "getVersion (example_future\<lparr>fdb_future_get_version := (0, 9007199254740993)\<rparr>)
     = (0, JSNumber 9007199254740992)
   \<and> GetCommittedVersion
       (example_api\<lparr>fdb_transaction_get_committed_version := (\<lambda>tr. (0, 9007199254740993))\<rparr>) 1
     = Inr (JSNumber 9007199254740992)
   \<and> sint (9007199254740993 :: 64 word) = 9007199254740993
   \<and> getVersion (example_future\<lparr>fdb_future_get_version := (0, 9007199254740995)\<rparr>)
     = (0, JSNumber 9007199254740996)
   \<and> sint (9007199254740995 :: 64 word) = 9007199254740995"
  by (simp add: getVersion_def GetCommittedVersion_def int64_to_double_def round_to_double_def
        Let_def bit_length_54)

section \<open>The key-value-list decode\<close>

lemma getKeyValueList_loop_step:
  "int i < sint n \<Longrightarrow>
   getKeyValueList_loop mem kv n i arr =
     getKeyValueList_loop mem kv n (Suc i) (Array_Set arr i (JSObject
        [(''key'', JSBuffer (read_bytes mem (kv_key (kv i)) (unat (kv_key_length (kv i))))),
         (''value'', JSBuffer (read_bytes mem (kv_value (kv i)) (unat (kv_value_length (kv i)))))]))"
  by (subst getKeyValueList_loop.simps) (simp add: CopyBuffer_def read_bytes_def)

lemma getKeyValueList_loop_stop:
  "\<not> int i < sint n \<Longrightarrow> getKeyValueList_loop mem kv n i arr = arr"
  by (subst getKeyValueList_loop.simps) simp

lemma getKeyValueList_loop_inv:
  "i \<le> nat (sint n) \<Longrightarrow> length arr = nat (sint n) \<Longrightarrow>
   getKeyValueList_loop mem kv n i arr =
     take i arr @
     map (\<lambda>j. JSObject [(''key'', JSBuffer (read_bytes mem (kv_key (kv j)) (unat (kv_key_length (kv j))))),
                         (''value'', JSBuffer (read_bytes mem (kv_value (kv j)) (unat (kv_value_length (kv j)))))])
       [i ..< nat (sint n)]"
proof (induction "nat (sint n) - i" arbitrary: i arr)
  case 0
  then have "i = nat (sint n)" by simp
  then show ?case
    using "0.prems"(2) by (simp add: getKeyValueList_loop_stop)
next
  case (Suc d)
  then have lt: "i < nat (sint n)" by simp
  then have cond: "int i < sint n" by simp
  let ?v = "JSObject [(''key'', JSBuffer (read_bytes mem (kv_key (kv i)) (unat (kv_key_length (kv i))))),
                      (''value'', JSBuffer (read_bytes mem (kv_value (kv i)) (unat (kv_value_length (kv i)))))]"
  have len: "length (Array_Set arr i ?v) = nat (sint n)"
    using lt Suc.prems(2) by (simp add: Array_Set_def)
  have tk: "take (Suc i) (Array_Set arr i ?v) = take i arr @ [?v]"
    using lt Suc.prems(2) by (simp add: Array_Set_def take_Suc_conv_app_nth)
  have "d = nat (sint n) - Suc i" using Suc.hyps(2) by simp
  then have "getKeyValueList_loop mem kv n (Suc i) (Array_Set arr i ?v) =
      take (Suc i) (Array_Set arr i ?v) @
      map (\<lambda>j. JSObject [(''key'', JSBuffer (read_bytes mem (kv_key (kv j)) (unat (kv_key_length (kv j))))),
                         (''value'', JSBuffer (read_bytes mem (kv_value (kv j)) (unat (kv_value_length (kv j)))))])
       [Suc i ..< nat (sint n)]"
    using lt len by (intro Suc.hyps(1)) simp_all
  then show ?case
    using lt by (simp add: getKeyValueList_loop_step [OF cond] tk upt_conv_Cons)
qed

text \<open>
  C8. On a completed range future whose accessor reports the error code zero,
  \<^verbatim>\<open>getKeyValueList\<close> returns an object with two properties. \<^verbatim>\<open>values\<close> is an array
  with one entry for each of the \<^verbatim>\<open>len\<close> native results, in the native order; entry
  \<open>i\<close> is an object whose \<^verbatim>\<open>key\<close> and \<^verbatim>\<open>value\<close> are buffers holding the bytes of the
  key region and of the value region of the native element \<open>i\<close>. \<^verbatim>\<open>more\<close> is true
  exactly when the native flag is not zero.
\<close>

theorem getKeyValueList_decode:
  assumes "fdb_future_get_keyvalue_array future = (0, kv, n, more')"
  shows "getKeyValueList mem future =
     (0, JSObject
       [(''values'', JSArray (map
           (\<lambda>i. JSObject
              [(''key'', JSBuffer (read_bytes mem (kv_key (kv i)) (unat (kv_key_length (kv i))))),
               (''value'', JSBuffer (read_bytes mem (kv_value (kv i)) (unat (kv_value_length (kv i)))))])
           [0 ..< nat (sint n)])),
        (''more'', JSBoolean (more' \<noteq> 0))])"
  using assms getKeyValueList_loop_inv [of 0 n "Array_New n" mem kv]
  by (simp add: getKeyValueList_def Array_New_def)

theorem getKeyValueList_decode_witness:
  "getKeyValueList example_memory example_future =
     (0, JSObject
       [(''values'', JSArray
           [JSObject [(''key'', JSBuffer [0, 1]), (''value'', JSBuffer [100])],
            JSObject [(''key'', JSBuffer [10, 11]), (''value'', JSBuffer [101])]]),
        (''more'', JSBoolean True)])"
proof -
  have f: "fdb_future_get_keyvalue_array example_future = (0, example_kv, 2, 1)"
    by (simp add: example_future_def)
  from getKeyValueList_decode [OF f, of example_memory] show ?thesis
    by (simp add: example_kv_def example_memory_def read_bytes_def upt_rec)
qed

section \<open>Cancelling a watch\<close>




section \<open>Starting the network once\<close>

lemma perform_guard:
  "startNetwork_calls s = (if initCalled s then 1 else 0) \<Longrightarrow>
   startNetwork_calls (snd (perform c env s)) = (if initCalled (snd (perform c env s)) then 1 else 0)"
  by (cases c) (auto simp: open_db_def init_def Let_def split: outcome.splits prod.splits if_splits)

lemma run_guard:
  "startNetwork_calls s = (if initCalled s then 1 else 0) \<Longrightarrow>
   startNetwork_calls (run cs s) = (if initCalled (run cs s) then 1 else 0)"
proof (induction cs arbitrary: s)
  case Nil
  then show ?case by simp
next
  case (Cons a cs)
  obtain c env where a: "a = (c, env)" by (cases a)
  show ?case
    unfolding a run.simps
    by (rule Cons.IH) (rule perform_guard [OF Cons.prems])
qed

lemma perform_started:
  "initCalled s \<Longrightarrow> initCalled (snd (perform c env s)) \<and>
     startNetwork_calls (snd (perform c env s)) = startNetwork_calls s"
  by (cases c) (auto simp: open_db_def init_def Let_def split: outcome.splits prod.splits if_splits)

lemma run_started:
  "initCalled s \<Longrightarrow> startNetwork_calls (run cs s) = startNetwork_calls s"
proof (induction cs arbitrary: s)
  case Nil
  then show ?case by simp
next
  case (Cons a cs)
  obtain c env where a: "a = (c, env)" by (cases a)
  show ?case
    unfolding a run.simps
    using Cons.IH [of "snd (perform c env s)"] perform_started [OF Cons.prems, of c env]
    by simp
qed

text \<open>
  C10. Over any sequence of opening calls from a freshly loaded module, whatever the
  environment of each call, \<^verbatim>\<open>nativeMod.startNetwork()\<close> is called at most once. The
  first opening call that finds an API version sets the guard and makes that one call;
  once the guard is set, no further sequence of opening calls makes another.
\<close>

theorem startNetwork_at_most_once:
  "startNetwork_calls (run cs initial_state) \<le> 1
   \<and> (initCalled s \<longrightarrow> startNetwork_calls (run cs s) = startNetwork_calls s)
   \<and> (\<not> initCalled s \<and> apiVersion_get env \<noteq> None \<longrightarrow>
        initCalled (snd (perform c env s))
        \<and> startNetwork_calls (snd (perform c env s)) = Suc (startNetwork_calls s))"
proof (intro conjI impI)
  have "startNetwork_calls (run cs initial_state) = (if initCalled (run cs initial_state) then 1 else 0)"
    by (rule run_guard) (simp add: initial_state_def)
  then show "startNetwork_calls (run cs initial_state) \<le> 1" by simp
next
  assume "initCalled s"
  then show "startNetwork_calls (run cs s) = startNetwork_calls s" by (rule run_started)
next
  assume "\<not> initCalled s \<and> apiVersion_get env \<noteq> None"
  then show "initCalled (snd (perform c env s))"
    by (cases c) (auto simp: open_db_def init_def Let_def)
next
  assume "\<not> initCalled s \<and> apiVersion_get env \<noteq> None"
  then show "startNetwork_calls (snd (perform c env s)) = Suc (startNetwork_calls s)"
    by (cases c) (auto simp: open_db_def init_def Let_def)
qed

theorem startNetwork_at_most_once_witness:
  "\<not> initCalled initial_state \<and> apiVersion_get example_environment \<noteq> None
   \<and> initCalled (snd (perform Call_open example_environment initial_state))
   \<and> startNetwork_calls (snd (perform Call_open example_environment initial_state)) = 1
   \<and> startNetwork_calls
       (run [(Call_openSync, example_environment), (Call_openDatabase, example_environment)]
          (snd (perform Call_open example_environment initial_state))) = 1
   \<and> startNetwork_calls
       (run [(Call_open, example_environment), (Call_openSync, example_environment),
             (Call_openDatabaseSync, example_environment)] initial_state) \<le> 1"
proof -
  have fresh: "\<not> initCalled initial_state \<and> apiVersion_get example_environment \<noteq> None"
    by (simp add: initial_state_def example_environment_def)
  have zero: "startNetwork_calls initial_state = 0"
    by (simp add: initial_state_def)
  note first = startNetwork_at_most_once
    [of "[(Call_open, example_environment), (Call_openSync, example_environment),
          (Call_openDatabaseSync, example_environment)]"
        initial_state example_environment Call_open]
  note later = startNetwork_at_most_once
    [of "[(Call_openSync, example_environment), (Call_openDatabase, example_environment)]"
        "snd (perform Call_open example_environment initial_state)" example_environment Call_open]
  from first later fresh zero show ?thesis by simp
qed

end
